theory Spec2Isabelle
  imports Complex_Main
begin

section \<open>Python values, exceptions and iterators\<close>

text \<open>
  The backend is a thin orchestration layer over hosted services. Every function of the
  source that can raise returns a sum here (\<open>Inl\<close> the exception), and every call that
  leaves the process is appended to a trace, so that "no call reaches the gateway" is a
  statement about that trace.
\<close>

datatype exn =
    ValueError string
  | IndexError string
  | TypeError string
  | External string

text \<open>\<open>str(e)\<close>: the message of an exception.\<close>

fun str_exn :: "exn \<Rightarrow> string" where
  "str_exn (ValueError m) = m"
| "str_exn (IndexError m) = m"
| "str_exn (TypeError m) = m"
| "str_exn (External m) = m"

datatype pyval = PBool bool | PStr string | PInt int | PStrs "string list"

text \<open>A Python dict whose insertion order is kept: an association list.\<close>

type_synonym dict = "(string \<times> pyval) list"

text \<open>
  An embedding vector is only handed on from the embedding endpoint to the store, never
  computed with or compared, and so is the temperature: they are kept as numbers.
\<close>

type_synonym vector = "real list"

text \<open>\<open>xs[i]\<close> on a Python list with \<open>i \<ge> 0\<close>: IndexError out of range.\<close>

definition py_index :: "'a list \<Rightarrow> nat \<Rightarrow> exn + 'a" where
  "py_index xs i = (if i < length xs then Inr (xs ! i) else Inl (IndexError ''list index out of range''))"

text \<open>\<open>sep.join(parts)\<close>.\<close>

fun join :: "string \<Rightarrow> string list \<Rightarrow> string" where
  "join sep [] = []"
| "join sep [x] = x"
| "join sep (x # y # ys) = x @ sep @ join sep (y # ys)"

text \<open>\<open>str(n)\<close> for an int: its decimal digits.\<close>

definition digit_char :: "nat \<Rightarrow> char" where
  "digit_char d = ''0123456789'' ! d"

fun str_nat :: "nat \<Rightarrow> string" where
  "str_nat n = (if n < 10 then [digit_char n] else str_nat (n div 10) @ [digit_char (n mod 10)])"

declare str_nat.simps [simp del]

definition str_int :: "int \<Rightarrow> string" where
  "str_int i = (if i < 0 then ''-'' @ str_nat (nat (- i)) else str_nat (nat i))"

text \<open>
  \<open>str(xs)\<close> for a list of strings, as an f-string prints it: the \<open>repr\<close> of each
  element, which is the element in single quotes when it has no quote, backslash or
  control character (the case of file extensions).
\<close>

definition repr_strs :: "string list \<Rightarrow> string" where
  "repr_strs xs = ''['' @ join '', '' (map (\<lambda>s. [CHR 0x27] @ s @ [CHR 0x27]) xs) @ '']''"

text \<open>\<open>s.lower()\<close> on ASCII text.\<close>

definition lower_char :: "char \<Rightarrow> char" where
  "lower_char c =
     (case map_of (zip ''ABCDEFGHIJKLMNOPQRSTUVWXYZ'' ''abcdefghijklmnopqrstuvwxyz'') c of
        Some d \<Rightarrow> d
      | None \<Rightarrow> c)"

definition lower :: "string \<Rightarrow> string" where
  "lower s = map lower_char s"

text \<open>
  \<open>os.path.splitext\<close> and \<open>os.path.basename\<close> of the standard library (POSIX paths),
  written out so that the model runs on concrete file names: \<open>rfind\<close> is the index of the
  last occurrence or -1; the extension starts at the last dot of the last path component,
  unless only dots come before it there.
\<close>

fun find_last :: "char \<Rightarrow> string \<Rightarrow> nat \<Rightarrow> int \<Rightarrow> int" where
  "find_last c [] i acc = acc"
| "find_last c (x # xs) i acc = find_last c xs (Suc i) (if x = c then int i else acc)"

definition rfind :: "char \<Rightarrow> string \<Rightarrow> int" where
  "rfind c p = find_last c p 0 (- 1)"

definition splitext :: "string \<Rightarrow> string \<times> string" where
  "splitext p =
     (let sepIndex = rfind CHR ''/'' p; dotIndex = rfind CHR ''.'' p
      in if dotIndex > sepIndex \<and>
            list_ex (\<lambda>k. p ! k \<noteq> CHR ''.'') [nat (sepIndex + 1)..<nat dotIndex]
         then (take (nat dotIndex) p, drop (nat dotIndex) p)
         else (p, ''''))"

definition basename :: "string \<Rightarrow> string" where
  "basename p = drop (nat (rfind CHR ''/'' p + 1)) p"

text \<open>
  A finite iterator as the consumer sees it: it yields an item and goes on, stops, or
  raises while being advanced.
\<close>

datatype 'a iter = Stop | Raise exn | Yield 'a "'a iter"

text \<open>What an iterator yields before it ends, and the exception that ended it (if one did).\<close>

fun fragments :: "'a iter \<Rightarrow> 'a list" where
  "fragments Stop = []"
| "fragments (Raise e) = []"
| "fragments (Yield x rest) = x # fragments rest"

fun failure :: "'a iter \<Rightarrow> exn option" where
  "failure Stop = None"
| "failure (Raise e) = Some e"
| "failure (Yield x rest) = failure rest"

section \<open>Python numbers\<close>

text \<open>
  A Python float is an IEEE 754 double: NaN, an infinity with its sign, or a finite
  number \<open>Finite s m e\<close> of sign \<open>s\<close> (\<open>True\<close> is negative), magnitude \<open>m * 2 ^ e\<close> with
  \<open>m \<ge> 0\<close>. So \<open>Finite False 1 0\<close> is 1.0, \<open>Finite False 1 (-2)\<close> is 0.25, and
  the two zeros are \<open>Finite False 0 0\<close> and \<open>Finite True 0 0\<close>. The normal form has an
  odd \<open>m\<close> (or is a zero with exponent 0); a double is a normal form with \<open>m < 2 ^ 53\<close>,
  \<open>e \<ge> -1074\<close> and a value below \<open>2 ^ 1024\<close>.
\<close>

datatype pyfloat = Finite bool int int | Inf bool | NaN

function bit_length :: "int \<Rightarrow> int" where
  "bit_length n = (if n \<le> 0 then 0 else 1 + bit_length (n div 2))"
  by pat_completeness auto
termination
  by (relation "measure nat") auto

declare bit_length.simps [simp del]

function normalize_float :: "int \<Rightarrow> int \<Rightarrow> int \<times> int" where
  "normalize_float m e =
     (if m = 0 then (0, 0)
      else if even m then normalize_float (m div 2) (e + 1)
      else (m, e))"
  by pat_completeness auto
termination
  by (relation "measure (\<lambda>(m, e). nat \<bar>m\<bar>)") auto

declare normalize_float.simps [simp del]

definition is_double :: "pyfloat \<Rightarrow> bool" where
  "is_double x =
     (case x of
        Finite s m e \<Rightarrow>
          0 \<le> m \<and> normalize_float m e = (m, e) \<and> m < 2 ^ 53 \<and> - 1074 \<le> e \<and>
          bit_length m + e \<le> 1024
      | _ \<Rightarrow> True)"

text \<open>
  Rounding of the exact magnitude \<open>M * 2 ^ E\<close> (\<open>M > 0\<close>) to the nearest double, ties to
  the even mantissa: the result keeps 53 bits, or fewer at the bottom of the range
  (exponent -1074); a result of \<open>2 ^ 1024\<close> or more is the infinity. \<open>round_shift M sh\<close>
  is \<open>M / 2 ^ sh\<close> rounded to the nearest integer, ties to the even one (\<open>sh > 0\<close>).
\<close>

definition round_shift :: "int \<Rightarrow> nat \<Rightarrow> int" where
  "round_shift M sh =
     (let q = M div 2 ^ sh;
          r = M mod 2 ^ sh;
          half = 2 ^ (sh - 1)
      in if r < half then q
         else if half < r then q + 1
         else if even q then q else q + 1)"

definition round_double :: "bool \<Rightarrow> int \<Rightarrow> int \<Rightarrow> pyfloat" where
  "round_double s M E =
     (let e = max (bit_length M + E - 53) (- 1074);
          m = (if e \<le> E then M * 2 ^ nat (E - e) else round_shift M (nat (e - E)))
      in if 1024 < bit_length m + e then Inf s
         else (case normalize_float m e of (m', e') \<Rightarrow> Finite s m' e'))"

definition signed :: "bool \<Rightarrow> int \<Rightarrow> int" where
  "signed s m = (if s then - m else m)"

fun py_neg :: "pyfloat \<Rightarrow> pyfloat" where
  "py_neg (Finite s m e) = Finite (\<not> s) m e"
| "py_neg (Inf s) = Inf (\<not> s)"
| "py_neg NaN = NaN"

text \<open>
  Addition of doubles: NaN is contagious, opposite infinities give NaN, two zeros give
  the negative zero only when both are negative, a zero leaves the other operand, and
  two non-zero numbers give the rounding of their exact sum (the positive zero when
  they cancel). Subtraction is the addition of the negated operand.
\<close>

fun py_add :: "pyfloat \<Rightarrow> pyfloat \<Rightarrow> pyfloat" where
  "py_add NaN y = NaN"
| "py_add x NaN = NaN"
| "py_add (Inf s) (Inf s') = (if s = s' then Inf s else NaN)"
| "py_add (Inf s) (Finite s' m e) = Inf s"
| "py_add (Finite s m e) (Inf s') = Inf s'"
| "py_add (Finite s1 m1 e1) (Finite s2 m2 e2) =
     (if m1 = 0 \<and> m2 = 0 then Finite (s1 \<and> s2) 0 0
      else if m2 = 0 then round_double s1 m1 e1
      else if m1 = 0 then round_double s2 m2 e2
      else
        (let e0 = min e1 e2;
             total = signed s1 m1 * 2 ^ nat (e1 - e0) + signed s2 m2 * 2 ^ nat (e2 - e0)
         in if total = 0 then Finite False 0 0
            else round_double (total < 0) \<bar>total\<bar> e0))"

definition py_sub :: "pyfloat \<Rightarrow> pyfloat \<Rightarrow> pyfloat" where
  "py_sub x y = py_add x (py_neg y)"

text \<open>\<open>bool(x)\<close> of a float: false for the two zeros only (NaN is truthy).\<close>

definition float_truthy :: "pyfloat \<Rightarrow> bool" where
  "float_truthy x = (case x of Finite s m e \<Rightarrow> m \<noteq> 0 | _ \<Rightarrow> True)"

text \<open>
  A number is an int or a float. \<open>1 - x\<close> is the integer difference for an int and the
  double difference \<open>1.0 - x\<close> for a float (the int 1 converts to 1.0 exactly).
\<close>

datatype pynum = PyInt int | PyFloat pyfloat

definition one_minus :: "pynum \<Rightarrow> pynum" where
  "one_minus x =
     (case x of
        PyInt j \<Rightarrow> PyInt (1 - j)
      | PyFloat y \<Rightarrow> PyFloat (py_sub (Finite False 1 0) y))"

text \<open>
  \<open>a == b\<close> on numbers: NaN equals nothing, not even itself; the two zeros are equal;
  otherwise the values are compared exactly, an int with a float too.
\<close>

definition canonical :: "pyfloat \<Rightarrow> pyfloat" where
  "canonical x =
     (case x of
        Finite s m e \<Rightarrow> (case normalize_float m e of (m', e') \<Rightarrow> Finite s m' e')
      | _ \<Rightarrow> x)"

definition float_eq :: "pyfloat \<Rightarrow> pyfloat \<Rightarrow> bool" where
  "float_eq x y =
     (x \<noteq> NaN \<and> y \<noteq> NaN \<and>
      ((\<not> float_truthy x \<and> \<not> float_truthy y) \<or> canonical x = canonical y))"

fun py_eq :: "pynum \<Rightarrow> pynum \<Rightarrow> bool" where
  "py_eq (PyInt i) (PyInt j) = (i = j)"
| "py_eq (PyInt i) (PyFloat y) = float_eq (Finite (i < 0) \<bar>i\<bar> 0) y"
| "py_eq (PyFloat x) (PyInt j) = float_eq x (Finite (j < 0) \<bar>j\<bar> 0)"
| "py_eq (PyFloat x) (PyFloat y) = float_eq x y"

section \<open>Data model\<close>

text \<open>A chat message as sent to the model: the dict \<open>{"role": ..., "content": ...}\<close>.\<close>

record message =
  role :: string
  content :: string

text \<open>\<open>models/schemas.py\<close>: ChatMessage, ChatRequest, IngestRequest, IngestResponse, ChatResponse.\<close>

record ChatMessage =
  cm_role :: string
  cm_content :: string
  cm_timestamp :: "string option"

record ChatRequest =
  req_message :: string
  conversation_history :: "ChatMessage list option"
  stream :: bool

record IngestRequest =
  text_content :: "string option"
  req_filename :: "string option"

record IngestResponse =
  success :: bool
  resp_message :: string
  document_id :: "string option"
  chunks_created :: int

record ChatResponse =
  response :: string
  sources :: "string list"

text \<open>A raised \<open>HTTPException(status_code, detail)\<close>.\<close>

record HTTPException =
  status_code :: nat
  detail :: string

text \<open>A LangChain \<open>Document\<close>: page content and a metadata dict.\<close>

record Document =
  page_content :: string
  doc_metadata :: "(string \<times> string) list"

text \<open>
  An object returned by the vector store. Its properties follow the schema declared in
  \<open>_create_collection_if_not_exists\<close> (content, filename, file_type, upload_date: text or
  date, chunk_index: int); a key that is missing from the properties dict is \<open>None\<close>.
  \<open>metadata\<close> is the optional MetadataReturn, whose \<open>distance\<close> is optional too.
\<close>

record properties =
  p_content :: "string option"
  p_filename :: "string option"
  p_chunk_index :: "int option"
  p_file_type :: "string option"
  p_upload_date :: "string option"

record MetadataReturn =
  md_distance :: "pyfloat option"

record wobject =
  obj_properties :: properties
  obj_metadata :: "MetadataReturn option"

text \<open>A Retrieval Result: the dict built by \<open>similarity_search\<close>.\<close>

record result_metadata =
  filename :: string
  chunk_index :: int
  file_type :: string
  upload_date :: string
  distance :: "pyfloat option"

record retrieval_result =
  r_content :: string
  r_metadata :: result_metadata
  r_score :: pynum

text \<open>
  One chunk of a streamed completion: the \<open>delta.content\<close> of each of its choices.
  A complete (non-streamed) response: the \<open>message.content\<close> of each of its choices.
\<close>

type_synonym stream_chunk = "string option list"

type_synonym completion = "string option list"

datatype loader = PyPDFLoader | UnstructuredMarkdownLoader | TextLoader

section \<open>The external services\<close>

text \<open>Every call that leaves the process, in the order it is made.\<close>

datatype call =
    EmbeddingsCreate "string list"
  | DataInsert dict vector
  | NearVector vector int
  | ChatCreate "message list" real int bool
  | SplitDocuments "Document list"
  | LoaderLoad loader string
  | UploadRead
  | TempFileWrite string string
  | GetSize string
  | Unlink string

type_synonym trace = "call list"

text \<open>
  The hosted services and the libraries are parameters. A service answers a call with a
  result or an exception, and the answer may depend on everything that was called before
  (the trace), which covers a store that hands out a fresh identifier on every insert.
  \<open>text_splitter\<close> is LangChain's \<open>RecursiveCharacterTextSplitter.split_documents\<close>,
  \<open>now\<close> is \<open>datetime.now().strftime(...)\<close> at the i-th chunk.
\<close>

record env =
  embeddings_create :: "trace \<Rightarrow> string list \<Rightarrow> exn + vector list"
  data_insert :: "trace \<Rightarrow> dict \<Rightarrow> vector \<Rightarrow> exn + string"
  query_near_vector :: "trace \<Rightarrow> vector \<Rightarrow> int \<Rightarrow> exn + wobject list"
  completions_stream :: "trace \<Rightarrow> message list \<Rightarrow> real \<Rightarrow> int \<Rightarrow> exn + stream_chunk iter"
  completions_create :: "trace \<Rightarrow> message list \<Rightarrow> real \<Rightarrow> int \<Rightarrow> exn + completion"
  text_splitter :: "Document list \<Rightarrow> exn + Document list"
  loader_load :: "trace \<Rightarrow> loader \<Rightarrow> string \<Rightarrow> exn + Document list"
  upload_read :: "trace \<Rightarrow> exn + string"
  temp_file_write :: "trace \<Rightarrow> string \<Rightarrow> string \<Rightarrow> exn + string"
  getsize :: "trace \<Rightarrow> string \<Rightarrow> exn + int"
  unlink :: "trace \<Rightarrow> string \<Rightarrow> exn option"
  now :: "trace \<Rightarrow> nat \<Rightarrow> string"

section \<open>\<open>services/azure_openai_client.py\<close>: embeddings\<close>

text \<open>
  \<open>create_embeddings\<close>: one call of the embeddings endpoint with the whole list; the
  embeddings of \<open>response.data\<close> in order. An exception is logged and raised again.
\<close>

definition create_embeddings :: "env \<Rightarrow> string list \<Rightarrow> trace \<Rightarrow> (exn + vector list) \<times> trace" where
  "create_embeddings E texts t =
     (case embeddings_create E t texts of
        Inl e \<Rightarrow> (Inl e, t @ [EmbeddingsCreate texts])
      | Inr embeddings \<Rightarrow> (Inr embeddings, t @ [EmbeddingsCreate texts]))"

text \<open>\<open>create_embedding\<close>: \<open>self.create_embeddings([text])[0]\<close>.\<close>

definition create_embedding :: "env \<Rightarrow> string \<Rightarrow> trace \<Rightarrow> (exn + vector) \<times> trace" where
  "create_embedding E text t =
     (case create_embeddings E [text] t of
        (Inl e, t') \<Rightarrow> (Inl e, t')
      | (Inr embeddings, t') \<Rightarrow> (py_index embeddings 0, t'))"

section \<open>\<open>services/weaviate_client.py\<close>\<close>

text \<open>
  \<open>add_documents\<close>: the loop over \<open>zip(documents, vectors)\<close>. Each pass drops the reserved
  keys from the document, inserts it with its vector and appends the identifier. The
  first insert that raises ends the loop: the exception is logged and raised again.
  (\<open>collections.get\<close> only builds a handle for the collection.)
\<close>

definition reserved_fields :: "string list" where
  "reserved_fields = [''id'', ''vector'']"

definition insert_properties :: "dict \<Rightarrow> dict" where
  "insert_properties doc = filter (\<lambda>(k, v). k \<notin> set reserved_fields) doc"

fun add_documents_loop :: "env \<Rightarrow> (dict \<times> vector) list \<Rightarrow> string list \<Rightarrow> trace \<Rightarrow> (exn + string list) \<times> trace" where
  "add_documents_loop E [] uuids t = (Inr uuids, t)"
| "add_documents_loop E ((doc, vec) # rest) uuids t =
     (case data_insert E t (insert_properties doc) vec of
        Inl e \<Rightarrow> (Inl e, t @ [DataInsert (insert_properties doc) vec])
      | Inr uuid \<Rightarrow>
          add_documents_loop E rest (uuids @ [uuid]) (t @ [DataInsert (insert_properties doc) vec]))"

definition add_documents :: "env \<Rightarrow> dict list \<Rightarrow> vector list \<Rightarrow> trace \<Rightarrow> (exn + string list) \<times> trace" where
  "add_documents E documents vectors t = add_documents_loop E (zip documents vectors) [] t"

text \<open>
  \<open>similarity_search\<close>: one nearest-neighbour query; every returned object becomes a
  result dict. \<open>properties.get(k, default)\<close> is the value or the default; the score is
  \<open>1 - (distance if metadata and distance else 0)\<close>: the double \<open>1.0 - distance\<close> when
  there is a metadata with a truthy distance, the int \<open>1 - 0\<close> otherwise (no metadata, no
  distance, or a distance of 0.0 or -0.0, which are falsy).
\<close>

definition get_or :: "'a option \<Rightarrow> 'a \<Rightarrow> 'a" where
  "get_or v d = (case v of None \<Rightarrow> d | Some x \<Rightarrow> x)"

definition result_of_item :: "wobject \<Rightarrow> retrieval_result" where
  "result_of_item item =
     \<lparr> r_content = get_or (p_content (obj_properties item)) '''',
       r_metadata =
         \<lparr> filename = get_or (p_filename (obj_properties item)) '''',
           chunk_index = get_or (p_chunk_index (obj_properties item)) 0,
           file_type = get_or (p_file_type (obj_properties item)) '''',
           upload_date = get_or (p_upload_date (obj_properties item)) '''',
           distance = (case obj_metadata item of None \<Rightarrow> None | Some m \<Rightarrow> md_distance m) \<rparr>,
       r_score =
         one_minus
           (case obj_metadata item of
              None \<Rightarrow> PyInt 0
            | Some m \<Rightarrow>
                (case md_distance m of
                   None \<Rightarrow> PyInt 0
                 | Some d \<Rightarrow> if float_truthy d then PyFloat d else PyInt 0)) \<rparr>"

definition similarity_search :: "env \<Rightarrow> vector \<Rightarrow> int \<Rightarrow> trace \<Rightarrow> (exn + retrieval_result list) \<times> trace" where
  "similarity_search E query_vector limit t =
     (case query_near_vector E t query_vector limit of
        Inl e \<Rightarrow> (Inl e, t @ [NearVector query_vector limit])
      | Inr objects \<Rightarrow> (Inr (map result_of_item objects), t @ [NearVector query_vector limit]))"

section \<open>\<open>services/azure_openai_client.py\<close>: chat\<close>

text \<open>
  \<open>chat_completion_stream\<close>: an async generator. It opens the streamed completion and
  walks its chunks; a chunk with a first choice whose \<open>delta.content\<close> is not \<open>None\<close>
  yields that content, every other chunk is skipped. An exception, at the opening or
  while a chunk is fetched, is logged and raised again to the consumer.
\<close>

fun stream_contents :: "stream_chunk iter \<Rightarrow> string iter" where
  "stream_contents Stop = Stop"
| "stream_contents (Raise e) = Raise e"
| "stream_contents (Yield chunk rest) =
     (case chunk of
        [] \<Rightarrow> stream_contents rest
      | choice # _ \<Rightarrow>
          (case choice of
             None \<Rightarrow> stream_contents rest
           | Some c \<Rightarrow> Yield c (stream_contents rest)))"

definition chat_completion_stream :: "env \<Rightarrow> message list \<Rightarrow> real \<Rightarrow> int \<Rightarrow> trace \<Rightarrow> string iter \<times> trace" where
  "chat_completion_stream E messages temp maxtok t =
     (case completions_stream E t messages temp maxtok of
        Inl e \<Rightarrow> (Raise e, t @ [ChatCreate messages temp maxtok True])
      | Inr resp \<Rightarrow> (stream_contents resp, t @ [ChatCreate messages temp maxtok True]))"

text \<open>
  \<open>chat_completion\<close>: the content of the first choice, \<open>""\<close> when that content is
  \<open>None\<close>, a fixed text when there is no choice.
\<close>

definition chat_completion :: "env \<Rightarrow> message list \<Rightarrow> real \<Rightarrow> int \<Rightarrow> trace \<Rightarrow> (exn + string) \<times> trace" where
  "chat_completion E messages temp maxtok t =
     (case completions_create E t messages temp maxtok of
        Inl e \<Rightarrow> (Inl e, t @ [ChatCreate messages temp maxtok False])
      | Inr choices \<Rightarrow>
          (case choices of
             [] \<Rightarrow> (Inr ''No response generated'', t @ [ChatCreate messages temp maxtok False])
           | choice # _ \<Rightarrow> (Inr (get_or choice ''''), t @ [ChatCreate messages temp maxtok False])))"

text \<open>\<open>create_rag_prompt\<close>: the two messages of the prompt.\<close>

definition system_prompt :: string where
  "system_prompt =
     ''You are a helpful AI assistant that answers questions based on the provided context. \<newline>'' @
     ''        Use the context documents to answer the user's question. If the answer cannot be found in the context, \<newline>'' @
     ''        say so clearly. Always cite the source documents when possible.''"

definition context_entry :: "retrieval_result \<Rightarrow> string" where
  "context_entry doc = ''Document: '' @ filename (r_metadata doc) @ ''\<newline>Content: '' @ r_content doc"

definition context_text :: "retrieval_result list \<Rightarrow> string" where
  "context_text context_docs = join ''\<newline>\<newline>'' (map context_entry context_docs)"

definition user_prompt :: "string \<Rightarrow> retrieval_result list \<Rightarrow> string" where
  "user_prompt query context_docs =
     ''Context Documents:\<newline>'' @ context_text context_docs @
     ''\<newline>\<newline>User Question: '' @ query @
     ''\<newline>\<newline>Please provide a helpful answer based on the context above.''"

definition create_rag_prompt :: "string \<Rightarrow> retrieval_result list \<Rightarrow> message list" where
  "create_rag_prompt query context_docs =
     [\<lparr>role = ''system'', content = system_prompt\<rparr>,
      \<lparr>role = ''user'', content = user_prompt query context_docs\<rparr>]"

section \<open>\<open>app/config.py\<close>\<close>

record settings =
  max_file_size :: int
  allowed_file_types :: "string list"
  max_retrieved_docs :: int
  temperature :: real
  max_tokens :: int

definition default_settings :: settings where
  "default_settings =
     \<lparr> max_file_size = 10 * 1024 * 1024,
       allowed_file_types = [''.pdf'', ''.txt'', ''.md'', ''.docx''],
       max_retrieved_docs = 5,
       temperature = 7 / 10,
       max_tokens = 1000 \<rparr>"

section \<open>\<open>services/document_service.py\<close>\<close>

text \<open>
  The dict that an ingestion returns. \<open>success\<close>, \<open>message\<close>, \<open>filename\<close> and
  \<open>chunks_created\<close> are set on every path; \<open>file_size\<close> and \<open>document_ids\<close> are keys
  that only some paths set, and \<open>None\<close> here is a key that the dict does not have.
\<close>

record ingest_result =
  res_success :: bool
  res_message :: string
  res_filename :: string
  res_chunks_created :: int
  res_file_size :: "int option"
  res_document_ids :: "string list option"

text \<open>\<open>load_document\<close>: the loader is chosen by the lower-cased file type.\<close>

definition load_document :: "env \<Rightarrow> string \<Rightarrow> string \<Rightarrow> trace \<Rightarrow> (exn + Document list) \<times> trace" where
  "load_document E file_path ftype t =
     (if lower ftype = ''.pdf'' then
        (loader_load E t PyPDFLoader file_path, t @ [LoaderLoad PyPDFLoader file_path])
      else if lower ftype = ''.md'' then
        (loader_load E t UnstructuredMarkdownLoader file_path,
         t @ [LoaderLoad UnstructuredMarkdownLoader file_path])
      else if lower ftype \<in> set [''.txt'', ''.text''] then
        (loader_load E t TextLoader file_path, t @ [LoaderLoad TextLoader file_path])
      else (Inl (ValueError (''Unsupported file type: '' @ ftype)), t))"

definition split_documents :: "env \<Rightarrow> Document list \<Rightarrow> trace \<Rightarrow> (exn + Document list) \<times> trace" where
  "split_documents E documents t = (text_splitter E documents, t @ [SplitDocuments documents])"

definition process_text_content :: "env \<Rightarrow> string \<Rightarrow> string \<Rightarrow> trace \<Rightarrow> (exn + Document list) \<times> trace" where
  "process_text_content E text fname t =
     (let document = \<lparr>page_content = text, doc_metadata = [(''source'', fname)]\<rparr>
      in (text_splitter E [document], t @ [SplitDocuments [document]]))"

text \<open>
  The documents prepared for the store: one per pair of \<open>zip(chunks, embeddings)\<close>,
  numbered by \<open>enumerate\<close>, stamped with the clock read at that pass.
\<close>

definition weaviate_docs :: "env \<Rightarrow> trace \<Rightarrow> string \<Rightarrow> string \<Rightarrow> Document list \<Rightarrow> vector list \<Rightarrow> dict list" where
  "weaviate_docs E t fname ftype chunks embeddings =
     map (\<lambda>(i, (chunk, embedding)).
            [(''content'', PStr (page_content chunk)),
             (''filename'', PStr fname),
             (''chunk_index'', PInt (int i)),
             (''file_type'', PStr ftype),
             (''upload_date'', PStr (now E t i))])
         (List.enumerate 0 (zip chunks embeddings))"

text \<open>
  The part that both ingestions share after the chunks exist: embed all chunk texts in
  one call, pair chunks with embeddings, store them.
\<close>

definition embed_and_store :: "env \<Rightarrow> string \<Rightarrow> string \<Rightarrow> Document list \<Rightarrow> trace \<Rightarrow> (exn + string list) \<times> trace" where
  "embed_and_store E fname ftype chunks t =
     (case create_embeddings E (map page_content chunks) t of
        (Inl e, t1) \<Rightarrow> (Inl e, t1)
      | (Inr embeddings, t1) \<Rightarrow>
          add_documents E (weaviate_docs E t1 fname ftype chunks embeddings) embeddings t1)"

text \<open>
  \<open>ingest_text_content\<close>: chunk, embed, store. Every exception is caught at the end of
  the function and becomes a failure dict.
\<close>

definition text_failure :: "string \<Rightarrow> exn \<Rightarrow> ingest_result" where
  "text_failure fname e =
     \<lparr> res_success = False,
       res_message = ''Failed to ingest text content: '' @ str_exn e,
       res_filename = fname,
       res_chunks_created = 0,
       res_file_size = None,
       res_document_ids = None \<rparr>"

definition ingest_text_content :: "env \<Rightarrow> string \<Rightarrow> string \<Rightarrow> trace \<Rightarrow> ingest_result \<times> trace" where
  "ingest_text_content E text fname t =
     (case process_text_content E text fname t of
        (Inl e, t1) \<Rightarrow> (text_failure fname e, t1)
      | (Inr chunks, t1) \<Rightarrow>
          (case embed_and_store E fname ''.txt'' chunks t1 of
             (Inl e, t2) \<Rightarrow> (text_failure fname e, t2)
           | (Inr document_ids, t2) \<Rightarrow>
               (\<lparr> res_success = True,
                  res_message = ''Successfully ingested text content'',
                  res_filename = fname,
                  res_chunks_created = int (length chunks),
                  res_file_size = None,
                  res_document_ids = Some document_ids \<rparr>, t2)))"

text \<open>
  \<open>ingest_document\<close>: the file type is the extension of the file name, the size is read
  from the file system, then load, chunk, embed, store.
\<close>

definition document_failure :: "string \<Rightarrow> exn \<Rightarrow> ingest_result" where
  "document_failure fname e =
     \<lparr> res_success = False,
       res_message = ''Failed to ingest document: '' @ str_exn e,
       res_filename = fname,
       res_chunks_created = 0,
       res_file_size = None,
       res_document_ids = None \<rparr>"

definition ingest_document :: "env \<Rightarrow> string \<Rightarrow> string option \<Rightarrow> trace \<Rightarrow> ingest_result \<times> trace" where
  "ingest_document E file_path fname_arg t =
     (let fname = (case fname_arg of
                     None \<Rightarrow> basename file_path
                   | Some f \<Rightarrow> if f = '''' then basename file_path else f);
          ftype = snd (splitext fname)
      in case getsize E t file_path of
           Inl e \<Rightarrow> (document_failure fname e, t @ [GetSize file_path])
         | Inr file_size \<Rightarrow>
             (case load_document E file_path ftype (t @ [GetSize file_path]) of
                (Inl e, t1) \<Rightarrow> (document_failure fname e, t1)
              | (Inr documents, t1) \<Rightarrow>
                  (case split_documents E documents t1 of
                     (Inl e, t2) \<Rightarrow> (document_failure fname e, t2)
                   | (Inr chunks, t2) \<Rightarrow>
                       (case embed_and_store E fname ftype chunks t2 of
                          (Inl e, t3) \<Rightarrow> (document_failure fname e, t3)
                        | (Inr document_ids, t3) \<Rightarrow>
                            (\<lparr> res_success = True,
                               res_message = ''Successfully ingested '' @ fname,
                               res_filename = fname,
                               res_chunks_created = int (length chunks),
                               res_file_size = Some file_size,
                               res_document_ids = Some document_ids \<rparr>, t3)))))"

text \<open>\<open>retrieve_relevant_documents\<close>: embed the query, search with the limit.\<close>

definition retrieve_relevant_documents :: "env \<Rightarrow> settings \<Rightarrow> string \<Rightarrow> int option \<Rightarrow> trace \<Rightarrow> (exn + retrieval_result list) \<times> trace" where
  "retrieve_relevant_documents E S query limit_arg t =
     (let limit = (case limit_arg of None \<Rightarrow> max_retrieved_docs S | Some l \<Rightarrow> l)
      in case create_embedding E query t of
           (Inl e, t1) \<Rightarrow> (Inl e, t1)
         | (Inr query_embedding, t1) \<Rightarrow> similarity_search E query_embedding limit t1)"

section \<open>\<open>app/main.py\<close>\<close>

text \<open>
  An endpoint returns its response or raises an HTTPException; \<open>Inl\<close> is the raised one.
  \<open>x or default\<close> on an optional string takes the default for \<open>None\<close> and for \<open>""\<close>.
\<close>

definition py_or :: "string option \<Rightarrow> string \<Rightarrow> string" where
  "py_or s d = (case s of None \<Rightarrow> d | Some v \<Rightarrow> if v = '''' then d else v)"

text \<open>
  The response built from a successful ingestion dict: \<open>document_id\<close> is the first
  generated identifier, or \<open>None\<close> when the list is missing or empty.
\<close>

definition ingest_response :: "ingest_result \<Rightarrow> IngestResponse" where
  "ingest_response result =
     \<lparr> success = True,
       resp_message = res_message result,
       document_id =
         (case res_document_ids result of
            None \<Rightarrow> None
          | Some ids \<Rightarrow> (case ids of [] \<Rightarrow> None | i # _ \<Rightarrow> Some i)),
       chunks_created = res_chunks_created result \<rparr>"

text \<open>
  \<open>POST /ingest/text\<close>. \<open>not request.text_content\<close> holds for \<open>None\<close> and for the
  empty string, and for nothing else.
\<close>

definition ingest_text :: "env \<Rightarrow> IngestRequest \<Rightarrow> trace \<Rightarrow> (HTTPException + IngestResponse) \<times> trace" where
  "ingest_text E request t =
     (case text_content request of
        None \<Rightarrow> (Inl \<lparr>status_code = 400, detail = ''Text content is required''\<rparr>, t)
      | Some text \<Rightarrow>
          if text = '''' then
            (Inl \<lparr>status_code = 400, detail = ''Text content is required''\<rparr>, t)
          else
            (case ingest_text_content E text (py_or (req_filename request) ''text_input'') t of
               (result, t1) \<Rightarrow>
                 if \<not> res_success result
                 then (Inl \<lparr>status_code = 500, detail = res_message result\<rparr>, t1)
                 else (Inr (ingest_response result), t1)))"

text \<open>
  \<open>POST /ingest/file\<close>. The extension check comes first, then the upload is read and
  measured, written to a temporary file and ingested; the temporary file is removed in
  a \<open>finally\<close> block, so an exception of \<open>os.unlink\<close> replaces the outcome of the
  ingestion. An upload without a file name makes \<open>os.path.splitext\<close> raise TypeError.
  Every exception that is not an HTTPException becomes a 500.
\<close>

definition ingest_file_error :: "exn \<Rightarrow> HTTPException" where
  "ingest_file_error e = \<lparr>status_code = 500, detail = ''Failed to ingest file: '' @ str_exn e\<rparr>"

definition ingest_file :: "env \<Rightarrow> settings \<Rightarrow> string option \<Rightarrow> trace \<Rightarrow> (HTTPException + IngestResponse) \<times> trace" where
  "ingest_file E S upload_filename t =
     (case upload_filename of
        None \<Rightarrow>
          (Inl (ingest_file_error
                  (TypeError ''expected str, bytes or os.PathLike object, not NoneType'')), t)
      | Some fname \<Rightarrow>
          (let file_extension = lower (snd (splitext fname))
           in if file_extension \<notin> set (allowed_file_types S) then
                (Inl \<lparr>status_code = 400,
                      detail = ''File type '' @ file_extension @ '' not supported. Allowed types: '' @
                               repr_strs (allowed_file_types S)\<rparr>, t)
              else
                (case upload_read E t of
                   Inl e \<Rightarrow> (Inl (ingest_file_error e), t @ [UploadRead])
                 | Inr file_content \<Rightarrow>
                     if int (length file_content) > max_file_size S then
                       (Inl \<lparr>status_code = 400,
                             detail = ''File size exceeds maximum allowed size of '' @
                                      str_int (max_file_size S) @ '' bytes''\<rparr>, t @ [UploadRead])
                     else
                       (case temp_file_write E (t @ [UploadRead]) file_extension file_content of
                          Inl e \<Rightarrow>
                            (Inl (ingest_file_error e),
                             t @ [UploadRead, TempFileWrite file_extension file_content])
                        | Inr temp_file_path \<Rightarrow>
                            (case ingest_document E temp_file_path (Some fname)
                                    (t @ [UploadRead, TempFileWrite file_extension file_content]) of
                               (result, t1) \<Rightarrow>
                                 (case unlink E t1 temp_file_path of
                                    Some e \<Rightarrow> (Inl (ingest_file_error e), t1 @ [Unlink temp_file_path])
                                  | None \<Rightarrow>
                                      if \<not> res_success result
                                      then (Inl \<lparr>status_code = 500, detail = res_message result\<rparr>,
                                            t1 @ [Unlink temp_file_path])
                                      else (Inr (ingest_response result),
                                            t1 @ [Unlink temp_file_path])))))))"

text \<open>
  \<open>POST /chat\<close>. The history block: when a history is supplied (and not empty), its
  last ten messages (\<open>conversation_history[-10:]\<close>) become role/content dicts and the
  messages are \<open>[messages[0]] + history_messages + [messages[1]]\<close>.
\<close>

definition history_messages :: "ChatMessage list \<Rightarrow> message list" where
  "history_messages history =
     map (\<lambda>msg. \<lparr>role = cm_role msg, content = cm_content msg\<rparr>)
         (drop (length history - 10) history)"

definition splice_history :: "message list \<Rightarrow> ChatMessage list option \<Rightarrow> exn + message list" where
  "splice_history messages history =
     (case history of
        None \<Rightarrow> Inr messages
      | Some h \<Rightarrow>
          if h = [] then Inr messages
          else (case py_index messages 0 of
                  Inl e \<Rightarrow> Inl e
                | Inr m0 \<Rightarrow>
                    (case py_index messages 1 of
                       Inl e \<Rightarrow> Inl e
                     | Inr m1 \<Rightarrow> Inr ([m0] @ history_messages h @ [m1]))))"

text \<open>
  The events of the streamed answer; each is the payload of one \<open>data: ...\<close> line:
  \<open>{"sources": [...]}\<close>, \<open>{"content": ...}\<close>, \<open>[DONE]\<close>, \<open>{"error": ...}\<close>.
\<close>

datatype sse_event =
    SourcesEvent "string list"
  | ContentEvent string
  | DoneEvent
  | ErrorEvent string

text \<open>
  \<open>generate_response\<close>: the generator of the streaming response. The loop over the
  fragments of \<open>chat_completion_stream\<close> yields one content event per fragment; when the
  fragments end it yields the sentinel; an exception leaves the \<open>try\<close> block and the
  handler yields one error event.
\<close>

fun content_events :: "string iter \<Rightarrow> sse_event list" where
  "content_events Stop = [DoneEvent]"
| "content_events (Raise e) = [ErrorEvent (str_exn e)]"
| "content_events (Yield chunk rest) = ContentEvent chunk # content_events rest"

definition generate_response :: "env \<Rightarrow> settings \<Rightarrow> message list \<Rightarrow> retrieval_result list \<Rightarrow> trace \<Rightarrow> sse_event list \<times> trace" where
  "generate_response E S messages relevant_docs t =
     (case chat_completion_stream E messages (temperature S) (max_tokens S) t of
        (chunks, t1) \<Rightarrow>
          (SourcesEvent (map (\<lambda>doc. filename (r_metadata doc)) relevant_docs) # content_events chunks,
           t1))"

datatype chat_reply = StreamingResponse "sse_event list" | CompleteResponse ChatResponse

definition chat_error :: "exn \<Rightarrow> HTTPException" where
  "chat_error e = \<lparr>status_code = 500, detail = ''Chat failed: '' @ str_exn e\<rparr>"

definition chat_stream :: "env \<Rightarrow> settings \<Rightarrow> ChatRequest \<Rightarrow> trace \<Rightarrow> (HTTPException + chat_reply) \<times> trace" where
  "chat_stream E S request t =
     (case retrieve_relevant_documents E S (req_message request) None t of
        (Inl e, t1) \<Rightarrow> (Inl (chat_error e), t1)
      | (Inr relevant_docs, t1) \<Rightarrow>
          (case splice_history (create_rag_prompt (req_message request) relevant_docs)
                  (conversation_history request) of
             Inl e \<Rightarrow> (Inl (chat_error e), t1)
           | Inr messages \<Rightarrow>
               if stream request then
                 (case generate_response E S messages relevant_docs t1 of
                    (events, t2) \<Rightarrow> (Inr (StreamingResponse events), t2))
               else
                 (case chat_completion E messages (temperature S) (max_tokens S) t1 of
                    (Inl e, t2) \<Rightarrow> (Inl (chat_error e), t2)
                  | (Inr response_content, t2) \<Rightarrow>
                      (Inr (CompleteResponse
                              \<lparr> response = response_content,
                                sources = map (\<lambda>doc. filename (r_metadata doc)) relevant_docs \<rparr>),
                       t2))))"

section \<open>A concrete set of services\<close>

text \<open>
  Services to run the model on: an embedding endpoint that returns one two-dimensional
  vector per text, a store that names each record after the number of calls made before
  it and always finds the same three objects, a model that streams "Hel", an empty
  chunk, a chunk without content and "lo", and a splitter that, as LangChain does on
  short texts, gives no chunk for a whitespace-only document and one chunk for any other.
\<close>

definition blank :: "string \<Rightarrow> bool" where
  "blank s = list_all (\<lambda>c. c \<in> set [CHR '' '', CHR 0x09, CHR 0x0A, CHR 0x0D]) s"

definition demo_objects :: "wobject list" where
  "demo_objects =
     [\<lparr> obj_properties =
          \<lparr> p_content = Some ''alpha'', p_filename = Some ''a.txt'', p_chunk_index = Some 0,
            p_file_type = Some ''.txt'', p_upload_date = Some ''2025-01-01T00:00:00Z'' \<rparr>,
        obj_metadata = Some \<lparr>md_distance = Some (Finite False 1 (- 2))\<rparr> \<rparr>,
      \<lparr> obj_properties =
          \<lparr> p_content = Some ''beta'', p_filename = Some ''a.txt'', p_chunk_index = Some 1,
            p_file_type = Some ''.txt'', p_upload_date = Some ''2025-01-01T00:00:00Z'' \<rparr>,
        obj_metadata = Some \<lparr>md_distance = None\<rparr> \<rparr>,
      \<lparr> obj_properties =
          \<lparr> p_content = Some ''gamma'', p_filename = Some ''b.md'', p_chunk_index = None,
            p_file_type = None, p_upload_date = None \<rparr>,
        obj_metadata = None \<rparr>]"

definition demo_env :: env where
  "demo_env =
     \<lparr> embeddings_create = (\<lambda>t texts. Inr (map (\<lambda>s. [1, 0]) texts)),
       data_insert = (\<lambda>t props vec. Inr (''uuid-'' @ str_nat (length t))),
       query_near_vector = (\<lambda>t v l. Inr demo_objects),
       completions_stream =
         (\<lambda>t m temp maxtok. Inr (Yield [Some ''Hel''] (Yield [] (Yield [None] (Yield [Some ''lo''] Stop))))),
       completions_create = (\<lambda>t m temp maxtok. Inr [Some ''Hello'']),
       text_splitter = (\<lambda>docs. Inr (filter (\<lambda>d. \<not> blank (page_content d)) docs)),
       loader_load = (\<lambda>t l p. Inr [\<lparr>page_content = ''file text'', doc_metadata = [(''source'', p)]\<rparr>]),
       upload_read = (\<lambda>t. Inr ''file text''),
       temp_file_write = (\<lambda>t suffix c. Inr (''/tmp/tmpupload'' @ suffix)),
       getsize = (\<lambda>t p. Inr 9),
       unlink = (\<lambda>t p. None),
       now = (\<lambda>t i. ''2025-01-01T00:00:00Z'') \<rparr>"

definition demo_docs :: "dict list" where
  "demo_docs =
     [[(''content'', PStr ''alpha''), (''id'', PStr ''x1''), (''chunk_index'', PInt 0)],
      [(''content'', PStr ''beta''), (''chunk_index'', PInt 1), (''vector'', PStrs [])],
      [(''content'', PStr ''gamma''), (''chunk_index'', PInt 2)]]"

text \<open>Twelve history messages, m0 to m11, and a model whose stream breaks.\<close>

definition demo_history :: "ChatMessage list" where
  "demo_history =
     map (\<lambda>i. \<lparr>cm_role = (if even i then ''user'' else ''assistant''),
               cm_content = ''m'' @ str_nat i, cm_timestamp = None\<rparr>) [0..<12]"

definition broken_stream_env :: env where
  "broken_stream_env =
     demo_env \<lparr> completions_stream :=
       (\<lambda>t m temp maxtok. Inr (Yield [Some ''Hel''] (Raise (External ''connection reset'')))) \<rparr>"

text \<open>A store whose second insert fails.\<close>

definition broken_store_env :: env where
  "broken_store_env =
     demo_env \<lparr> data_insert :=
       (\<lambda>t props vec. if length t = 1 then Inl (External ''insert failed'')
                       else Inr (''uuid-'' @ str_nat (length t))) \<rparr>"





section \<open>Vocabulary of the statements\<close>

text \<open>The insert calls that a list of (document, vector) pairs gives rise to, in order.\<close>

definition insert_calls :: "(dict \<times> vector) list \<Rightarrow> call list" where
  "insert_calls pairs = map (\<lambda>(doc, vec). DataInsert (insert_properties doc) vec) pairs"

text \<open>
  What the model's answer carries: the content of the first choice of every chunk that
  has one, in arrival order, and the exception that ended the answer, if one did (at the
  opening of the stream or while a chunk was fetched).
\<close>

definition first_contents :: "stream_chunk list \<Rightarrow> string list" where
  "first_contents chunks =
     concat (map (\<lambda>chunk. case chunk of
                             [] \<Rightarrow> []
                           | choice # _ \<Rightarrow> (case choice of None \<Rightarrow> [] | Some c \<Rightarrow> [c]))
                 chunks)"

definition answer_fragments :: "exn + stream_chunk iter \<Rightarrow> string list" where
  "answer_fragments answer =
     (case answer of Inl e \<Rightarrow> [] | Inr resp \<Rightarrow> first_contents (fragments resp))"

definition answer_failure :: "exn + stream_chunk iter \<Rightarrow> exn option" where
  "answer_failure answer = (case answer of Inl e \<Rightarrow> Some e | Inr resp \<Rightarrow> failure resp)"

section \<open>The arithmetic of doubles on examples\<close>

text \<open>
  The subtraction agrees with Python on: \<open>1 - 0.25\<close>; \<open>1 - 2 ** -60\<close> and \<open>1 - 2 ** -54\<close>
  (rounded to 1.0, the second one a tie); \<open>1 - 3 * 2 ** -54\<close> (a tie that goes down to
  the even mantissa); \<open>1 - 0.1\<close>; the largest double minus \<open>2 ** 970\<close> on the negative
  side (overflow); the smallest doubles; the signed zeros; and the special values.
\<close>

lemma py_sub_examples:
  "py_sub (Finite False 1 0) (Finite False 1 (- 2)) = Finite False 3 (- 2)"
  "py_sub (Finite False 1 0) (Finite False 1 (- 60)) = Finite False 1 0"
  "py_sub (Finite False 1 0) (Finite False 1 (- 54)) = Finite False 1 0"
  "py_sub (Finite False 1 0) (Finite False 1 (- 53)) = Finite False 9007199254740991 (- 53)"
  "py_sub (Finite False 1 0) (Finite False 3 (- 54)) = Finite False 4503599627370495 (- 52)"
  "py_sub (Finite False 1 0) (Finite False 3602879701896397 (- 55)) =
     Finite False 8106479329266893 (- 53)"
  "py_sub (Finite True 9007199254740991 971) (Finite False 1 969) =
     Finite True 9007199254740991 971"
  "py_sub (Finite True 9007199254740991 971) (Finite False 1 970) = Inf True"
  "py_sub (Finite False 1 (- 1074)) (Finite False 3 (- 1074)) = Finite True 1 (- 1073)"
  "round_double False 1 (- 1075) = Finite False 0 0"
  "round_double False 3 (- 1075) = Finite False 1 (- 1073)"
  "py_sub (Finite False 1 0) (Finite True 0 0) = Finite False 1 0"
  "py_sub (Finite True 0 0) (Finite False 0 0) = Finite True 0 0"
  "py_sub (Finite True 0 0) (Finite True 0 0) = Finite False 0 0"
  "py_sub (Finite False 5 0) (Finite False 5 0) = Finite False 0 0"
  "py_sub (Finite False 1 0) (Inf False) = Inf True"
  "py_sub (Inf False) (Inf False) = NaN"
  "py_sub (Finite False 1 0) NaN = NaN"
  by code_simp+

lemma is_double_examples:
  "is_double (Finite False 1 0)"
  "is_double (Finite False 1 (- 2))"
  "is_double (Finite False 1 (- 60))"
  "is_double (Finite False 8106479329266893 (- 53))"
  "is_double (Finite True 9007199254740991 971)"
  "is_double (Finite False 1 (- 1074))"
  "\<not> is_double (Finite False 1 (- 1075))"
  "\<not> is_double (Finite False 9007199254740993 0)"
  "\<not> is_double (Finite False 1 1024)"
  "\<not> is_double (Finite False 2 0)"
  by code_simp+

lemma py_eq_examples:
  "py_eq (PyInt 1) (PyFloat (Finite False 1 0))"
  "py_eq (PyFloat (Finite False 0 0)) (PyFloat (Finite True 0 0))"
  "py_eq (PyInt 0) (PyFloat (Finite True 0 0))"
  "\<not> py_eq (PyFloat NaN) (PyFloat NaN)"
  "\<not> py_eq (PyInt 1) (PyFloat (Finite False 3 (- 2)))"
  "py_eq (PyFloat (Inf True)) (PyFloat (Inf True))"
  by code_simp+

section \<open>Score derivation\<close>















section \<open>The single-text embedding\<close>

text \<open>
  Claim C9. \<open>create_embedding(text)\<close> is the first element of
  \<open>create_embeddings([text])\<close>: when the batch call returns a non-empty list, the single
  call returns its head after the same one gateway call; when the batch call returns an
  empty list, taking the first element raises IndexError; when the batch call raises,
  the single call raises the same exception.
\<close>

theorem create_embedding_first:
  "(create_embeddings E [text] t = (Inr (v # vs), t') \<longrightarrow>
      create_embedding E text t = (Inr v, t')) \<and>
   (create_embeddings E [text] t = (Inr [], t') \<longrightarrow>
      create_embedding E text t = (Inl (IndexError ''list index out of range''), t')) \<and>
   (create_embeddings E [text] t = (Inl e, t') \<longrightarrow>
      create_embedding E text t = (Inl e, t'))"
  by (simp add: create_embedding_def py_index_def)

theorem create_embedding_first_witness:
  "create_embeddings demo_env [''hello''] [] = (Inr [[1, 0]], [EmbeddingsCreate [''hello'']]) \<and>
   create_embedding demo_env ''hello'' [] = (Inr [1, 0], [EmbeddingsCreate [''hello'']])"
proof -
  have h: "create_embeddings demo_env [''hello''] [] =
             (Inr ([1, 0] # []), [EmbeddingsCreate [''hello'']])"
    by (simp add: create_embeddings_def demo_env_def)
  with create_embedding_first
         [of demo_env "''hello''" "[]" "[1, 0]" "[]" "[EmbeddingsCreate [''hello'']]"]
  show ?thesis by simp
qed

section \<open>The streamed answer\<close>

text \<open>
  The events after the sources event are one content event per fragment and then exactly
  one closing event: the sentinel when the fragments ended, the error event when an
  exception ended them. The generator of \<open>chat_completion_stream\<close> yields the first-choice
  contents of the answer's chunks in arrival order and fails exactly when the answer does.
\<close>

lemma content_events_shape:
  "content_events it =
     map ContentEvent (fragments it) @
     [case failure it of None \<Rightarrow> DoneEvent | Some e \<Rightarrow> ErrorEvent (str_exn e)]"
  by (induction it) simp_all

lemma fragments_stream_contents:
  "fragments (stream_contents resp) = first_contents (fragments resp)"
  by (induction resp) (simp_all add: first_contents_def split: list.splits option.splits)

lemma failure_stream_contents:
  "failure (stream_contents resp) = failure resp"
  by (induction resp) (simp_all split: list.splits option.splits)

lemma generate_response_shape:
  "generate_response E S messages relevant_docs t =
     (SourcesEvent (map (\<lambda>doc. filename (r_metadata doc)) relevant_docs) #
      map ContentEvent (answer_fragments (completions_stream E t messages (temperature S) (max_tokens S))) @
      [case answer_failure (completions_stream E t messages (temperature S) (max_tokens S)) of
         None \<Rightarrow> DoneEvent
       | Some e \<Rightarrow> ErrorEvent (str_exn e)],
      t @ [ChatCreate messages (temperature S) (max_tokens S) True])"
  by (simp add: generate_response_def chat_completion_stream_def content_events_shape
      fragments_stream_contents failure_stream_contents answer_fragments_def answer_failure_def
      split: sum.splits)

lemma splice_history_prompt:
  "splice_history (create_rag_prompt query docs) history =
     Inr (case history of
            None \<Rightarrow> create_rag_prompt query docs
          | Some h \<Rightarrow>
              \<lparr>role = ''system'', content = system_prompt\<rparr> #
              history_messages h @ [\<lparr>role = ''user'', content = user_prompt query docs\<rparr>])"
  by (cases history) (auto simp: splice_history_def create_rag_prompt_def py_index_def history_messages_def)

text \<open>
  Claim C4. A streaming chat request whose retrieval succeeded is answered with the
  event sequence: one sources event with the file name of every Retrieval Result, in
  result order and with duplicates; one content event per fragment of the answer, in
  arrival order; then one closing event, which is the \<open>[DONE]\<close> sentinel when the answer
  ended normally and the error event with the failure message when the answer failed
  (at its opening or in mid-stream). Nothing follows the closing event, so no sentinel
  follows an error event. The prompt sent to the model is the spliced message list.
\<close>

theorem chat_stream_events:
  assumes "stream request"
      and "retrieve_relevant_documents E S (req_message request) None t = (Inr docs, t1)"
  shows "\<exists>messages.
           splice_history (create_rag_prompt (req_message request) docs)
             (conversation_history request) = Inr messages \<and>
           chat_stream E S request t =
             (Inr (StreamingResponse
                (SourcesEvent (map (\<lambda>doc. filename (r_metadata doc)) docs) #
                 map ContentEvent
                   (answer_fragments (completions_stream E t1 messages (temperature S) (max_tokens S))) @
                 [case answer_failure (completions_stream E t1 messages (temperature S) (max_tokens S)) of
                    None \<Rightarrow> DoneEvent
                  | Some e \<Rightarrow> ErrorEvent (str_exn e)])),
              t1 @ [ChatCreate messages (temperature S) (max_tokens S) True])"
proof -
  obtain messages where m:
    "splice_history (create_rag_prompt (req_message request) docs) (conversation_history request) =
       Inr messages"
    using splice_history_prompt by blast
  with assms have "chat_stream E S request t =
      (Inr (StreamingResponse (fst (generate_response E S messages docs t1))),
       snd (generate_response E S messages docs t1))"
    by (simp add: chat_stream_def split: prod.splits)
  with m show ?thesis
    by (simp add: generate_response_shape)
qed

text \<open>
  With the concrete services the three results give the sources \<open>a.txt, a.txt, b.md\<close>
  and the fragments "Hel" and "lo" are followed by the sentinel; with the model whose
  stream breaks after "Hel", the error event closes the sequence.
\<close>

theorem chat_stream_events_witness:
  "stream \<lparr>req_message = ''q'', conversation_history = None, stream = True\<rparr> \<and>
   retrieve_relevant_documents demo_env default_settings
       (req_message \<lparr>req_message = ''q'', conversation_history = None, stream = True\<rparr>) None [] =
     (Inr (map result_of_item demo_objects), [EmbeddingsCreate [''q''], NearVector [1, 0] 5]) \<and>
   fst (chat_stream demo_env default_settings
          \<lparr>req_message = ''q'', conversation_history = None, stream = True\<rparr> []) =
     Inr (StreamingResponse
            [SourcesEvent [''a.txt'', ''a.txt'', ''b.md''],
             ContentEvent ''Hel'', ContentEvent ''lo'', DoneEvent]) \<and>
   fst (chat_stream broken_stream_env default_settings
          \<lparr>req_message = ''q'', conversation_history = None, stream = True\<rparr> []) =
     Inr (StreamingResponse
            [SourcesEvent [''a.txt'', ''a.txt'', ''b.md''],
             ContentEvent ''Hel'', ErrorEvent ''connection reset''])"
proof -
  let ?r = "\<lparr>req_message = ''q'', conversation_history = None, stream = True\<rparr>"
  let ?docs = "map result_of_item demo_objects"
  have a: "stream ?r" by simp
  have b: "retrieve_relevant_documents demo_env default_settings (req_message ?r) None [] =
             (Inr ?docs, [EmbeddingsCreate [''q''], NearVector [1, 0] 5])"
    by code_simp
  have c: "retrieve_relevant_documents broken_stream_env default_settings (req_message ?r) None [] =
             (Inr ?docs, [EmbeddingsCreate [''q''], NearVector [1, 0] 5])"
    by code_simp
  have s: "map (\<lambda>doc. filename (r_metadata doc)) ?docs = [''a.txt'', ''a.txt'', ''b.md'']"
    by code_simp
  have m: "splice_history (create_rag_prompt (req_message ?r) ?docs) (conversation_history ?r) = Inr ms
             \<Longrightarrow> ms = create_rag_prompt ''q'' ?docs" for ms
    by (simp add: splice_history_def)
  have d: "answer_fragments (completions_stream demo_env t ms x y) = [''Hel'', ''lo'']"
          "answer_failure (completions_stream demo_env t ms x y) = None" for t ms x y
    by (simp_all add: demo_env_def answer_fragments_def answer_failure_def first_contents_def)
  have e: "answer_fragments (completions_stream broken_stream_env t ms x y) = [''Hel'']"
          "answer_failure (completions_stream broken_stream_env t ms x y) = Some (External ''connection reset'')"
    for t ms x y
    by (simp_all add: broken_stream_env_def answer_fragments_def answer_failure_def first_contents_def)
  from chat_stream_events [OF a b] have
    "fst (chat_stream demo_env default_settings ?r []) =
       Inr (StreamingResponse
            [SourcesEvent [''a.txt'', ''a.txt'', ''b.md''],
             ContentEvent ''Hel'', ContentEvent ''lo'', DoneEvent])"
    unfolding s d by auto
  moreover from chat_stream_events [OF a c] have
    "fst (chat_stream broken_stream_env default_settings ?r []) =
       Inr (StreamingResponse
            [SourcesEvent [''a.txt'', ''a.txt'', ''b.md''],
             ContentEvent ''Hel'', ErrorEvent ''connection reset''])"
    unfolding s e by auto
  ultimately show ?thesis using a b by blast
qed

section \<open>The prompt\<close>

text \<open>
  Claim C6. \<open>create_rag_prompt\<close> is a function of the query and the context chunks and
  returns exactly two messages: the system message with the fixed instructions (answer
  from the provided context, say so when the answer is not in it, cite the sources),
  then the user message that holds, in order, the file name and content of every context
  chunk, followed by the verbatim query (and a closing sentence).
\<close>

theorem create_rag_prompt_two_messages:
  "create_rag_prompt query context_docs =
     [\<lparr>role = ''system'',
       content =
         (''You are a helpful AI assistant that answers questions based on the provided context. \<newline>'' @
          ''        Use the context documents to answer the user's question. If the answer cannot be found in the context, \<newline>'' @
          ''        say so clearly. Always cite the source documents when possible.'')\<rparr>,
      \<lparr>role = ''user'',
       content =
         ''Context Documents:\<newline>'' @
         join ''\<newline>\<newline>''
           (map (\<lambda>doc. ''Document: '' @ filename (r_metadata doc) @ ''\<newline>Content: '' @ r_content doc)
              context_docs) @
         ''\<newline>\<newline>User Question: '' @ query @
         ''\<newline>\<newline>Please provide a helpful answer based on the context above.''\<rparr>] \<and>
   length (create_rag_prompt query context_docs) = 2"
  by (simp add: create_rag_prompt_def system_prompt_def user_prompt_def context_text_def
      context_entry_def [abs_def])

text \<open>The prompt for a query over the first two results of the concrete store.\<close>

theorem create_rag_prompt_two_messages_witness:
  "map content (create_rag_prompt ''What is alpha?'' (take 2 (map result_of_item demo_objects))) =
     [(''You are a helpful AI assistant that answers questions based on the provided context. \<newline>'' @
      ''        Use the context documents to answer the user's question. If the answer cannot be found in the context, \<newline>'' @
      ''        say so clearly. Always cite the source documents when possible.''),
      ''Context Documents:\<newline>Document: a.txt\<newline>Content: alpha\<newline>\<newline>Document: a.txt\<newline>Content: beta\<newline>\<newline>User Question: What is alpha?\<newline>\<newline>Please provide a helpful answer based on the context above.'']"
  using create_rag_prompt_two_messages [of "''What is alpha?''" "take 2 (map result_of_item demo_objects)"]
  by (simp add: demo_objects_def result_of_item_def get_or_def)

text \<open>
  Claim C5. When the request carries a history of more than ten messages, the prompt
  sent to the model is the system message, then exactly the last ten history messages
  in their original order (as role/content pairs), then the user message with the query;
  the older messages are dropped. This holds for the streamed and the complete answer.
\<close>

theorem chat_stream_history_truncation:
  assumes "retrieve_relevant_documents E S (req_message request) None t = (Inr docs, t1)"
      and "conversation_history request = Some h"
      and "10 < length h"
  shows "\<exists>reply.
           chat_stream E S request t =
             (reply,
              t1 @ [ChatCreate
                      (\<lparr>role = ''system'', content = system_prompt\<rparr> #
                       map (\<lambda>msg. \<lparr>role = cm_role msg, content = cm_content msg\<rparr>)
                         (drop (length h - 10) h) @
                       [\<lparr>role = ''user'', content = user_prompt (req_message request) docs\<rparr>])
                      (temperature S) (max_tokens S) (stream request)]) \<and>
           length (drop (length h - 10) h) = 10 \<and>
           (\<forall>i < 10. drop (length h - 10) h ! i = h ! (length h - 10 + i))"
proof -
  let ?messages = "\<lparr>role = ''system'', content = system_prompt\<rparr> #
                       map (\<lambda>msg. \<lparr>role = cm_role msg, content = cm_content msg\<rparr>)
                         (drop (length h - 10) h) @
                       [\<lparr>role = ''user'', content = user_prompt (req_message request) docs\<rparr>]"
  have m: "splice_history (create_rag_prompt (req_message request) docs) (conversation_history request) =
       Inr ?messages"
    using assms(2) by (simp add: splice_history_prompt history_messages_def)
  have "snd (chat_stream E S request t) =
          t1 @ [ChatCreate ?messages (temperature S) (max_tokens S) (stream request)]"
    using assms(1) m
    by (simp add: chat_stream_def generate_response_def chat_completion_stream_def
        chat_completion_def split: sum.splits list.splits prod.splits)
  then have "\<exists>reply. chat_stream E S request t =
          (reply, t1 @ [ChatCreate ?messages (temperature S) (max_tokens S) (stream request)])"
    by (metis prod.collapse)
  moreover have "length (drop (length h - 10) h) = 10"
    using assms(3) by simp
  moreover have "\<forall>i < 10. drop (length h - 10) h ! i = h ! (length h - 10 + i)"
    using assms(3) by simp
  ultimately show ?thesis by blast
qed

text \<open>Of twelve history messages m0 to m11, the messages m2 to m11 reach the model.\<close>

theorem chat_stream_history_truncation_witness:
  "retrieve_relevant_documents demo_env default_settings
       (req_message \<lparr>req_message = ''q'', conversation_history = Some demo_history, stream = False\<rparr>)
       None [] =
     (Inr (map result_of_item demo_objects), [EmbeddingsCreate [''q''], NearVector [1, 0] 5]) \<and>
   10 < length demo_history \<and>
   map cm_content (drop (length demo_history - 10) demo_history) =
     [''m2'', ''m3'', ''m4'', ''m5'', ''m6'', ''m7'', ''m8'', ''m9'', ''m10'', ''m11''] \<and>
   (\<exists>reply.
      chat_stream demo_env default_settings
          \<lparr>req_message = ''q'', conversation_history = Some demo_history, stream = False\<rparr> [] =
        (reply,
         [EmbeddingsCreate [''q''], NearVector [1, 0] 5] @
         [ChatCreate
            (\<lparr>role = ''system'', content = system_prompt\<rparr> #
             map (\<lambda>msg. \<lparr>role = cm_role msg, content = cm_content msg\<rparr>)
               (drop (length demo_history - 10) demo_history) @
             [\<lparr>role = ''user'',
               content = user_prompt
                 (req_message \<lparr>req_message = ''q'', conversation_history = Some demo_history,
                               stream = False\<rparr>)
                 (map result_of_item demo_objects)\<rparr>])
            (temperature default_settings) (max_tokens default_settings)
            (stream \<lparr>req_message = ''q'', conversation_history = Some demo_history,
                     stream = False\<rparr>)]))"
proof -
  let ?r = "\<lparr>req_message = ''q'', conversation_history = Some demo_history, stream = False\<rparr>"
  have a: "retrieve_relevant_documents demo_env default_settings (req_message ?r) None [] =
             (Inr (map result_of_item demo_objects), [EmbeddingsCreate [''q''], NearVector [1, 0] 5])"
    by code_simp
  have b: "conversation_history ?r = Some demo_history" by simp
  have c: "10 < length demo_history" by (simp add: demo_history_def)
  have d: "map cm_content (drop (length demo_history - 10) demo_history) =
             [''m2'', ''m3'', ''m4'', ''m5'', ''m6'', ''m7'', ''m8'', ''m9'', ''m10'', ''m11'']"
    by code_simp
  from chat_stream_history_truncation [OF a b c] a c d show ?thesis by blast
qed

section \<open>Inserting documents\<close>

text \<open>
  The loop returns identifiers exactly when every insert it makes returns one, and then
  the i-th identifier is the one that the store returned for the i-th pair, called after
  the inserts of the pairs before it. The loop raises exactly what an insert raised.
\<close>

lemma insert_calls_Cons:
  "insert_calls ((doc, vec) # ps) = DataInsert (insert_properties doc) vec # insert_calls ps"
  by (simp add: insert_calls_def)

lemma add_documents_loop_Inr_iff:
  "add_documents_loop E ps acc t = (Inr ids, t') \<longleftrightarrow>
     (\<exists>new. ids = acc @ new \<and> length new = length ps \<and> t' = t @ insert_calls ps \<and>
        (\<forall>i < length ps.
           data_insert E (t @ insert_calls (take i ps))
             (insert_properties (fst (ps ! i))) (snd (ps ! i)) = Inr (new ! i)))"
proof (induction ps arbitrary: acc t)
  case Nil
  then show ?case by (auto simp: insert_calls_def)
next
  case (Cons p ps)
  obtain doc vec where p: "p = (doc, vec)" by (cases p)
  let ?c = "DataInsert (insert_properties doc) vec"
  show ?case
  proof (cases "data_insert E t (insert_properties doc) vec")
    case (Inl e)
    have "\<not> (\<forall>i < length (p # ps).
           data_insert E (t @ insert_calls (take i (p # ps)))
             (insert_properties (fst ((p # ps) ! i))) (snd ((p # ps) ! i)) = Inr (new ! i))" for new
      using Inl p by (auto simp: insert_calls_def intro!: exI[of _ 0])
    then show ?thesis using Inl p by simp
  next
    case (Inr u)
    have step: "add_documents_loop E (p # ps) acc t = add_documents_loop E ps (acc @ [u]) (t @ [?c])"
      using Inr p by simp
    show ?thesis
    proof
      assume "add_documents_loop E (p # ps) acc t = (Inr ids, t')"
      with step Cons.IH [of "acc @ [u]" "t @ [?c]"] obtain new
        where n: "ids = (acc @ [u]) @ new" "length new = length ps" "t' = (t @ [?c]) @ insert_calls ps"
          and a: "\<forall>i < length ps.
                   data_insert E ((t @ [?c]) @ insert_calls (take i ps))
                     (insert_properties (fst (ps ! i))) (snd (ps ! i)) = Inr (new ! i)"
        by auto
      have "\<forall>i < length (p # ps).
              data_insert E (t @ insert_calls (take i (p # ps)))
                (insert_properties (fst ((p # ps) ! i))) (snd ((p # ps) ! i)) = Inr ((u # new) ! i)"
      proof (intro allI impI)
        fix i assume "i < length (p # ps)"
        then show "data_insert E (t @ insert_calls (take i (p # ps)))
                (insert_properties (fst ((p # ps) ! i))) (snd ((p # ps) ! i)) = Inr ((u # new) ! i)"
          using a Inr p by (cases i) (simp_all add: insert_calls_Cons insert_calls_def)
      qed
      with n p show "\<exists>new. ids = acc @ new \<and> length new = length (p # ps) \<and>
            t' = t @ insert_calls (p # ps) \<and>
            (\<forall>i < length (p # ps).
              data_insert E (t @ insert_calls (take i (p # ps)))
                (insert_properties (fst ((p # ps) ! i))) (snd ((p # ps) ! i)) = Inr (new ! i))"
        by (intro exI[of _ "u # new"]) (simp add: insert_calls_Cons)
    next
      assume "\<exists>new. ids = acc @ new \<and> length new = length (p # ps) \<and>
            t' = t @ insert_calls (p # ps) \<and>
            (\<forall>i < length (p # ps).
              data_insert E (t @ insert_calls (take i (p # ps)))
                (insert_properties (fst ((p # ps) ! i))) (snd ((p # ps) ! i)) = Inr (new ! i))"
      then obtain new where n: "ids = acc @ new" "length new = length (p # ps)"
            "t' = t @ insert_calls (p # ps)"
          and a: "\<forall>i < length (p # ps).
              data_insert E (t @ insert_calls (take i (p # ps)))
                (insert_properties (fst ((p # ps) ! i))) (snd ((p # ps) ! i)) = Inr (new ! i)"
        by blast
      from n(2) obtain x new' where new: "new = x # new'" "length new' = length ps"
        by (auto simp: length_Suc_conv)
      from a [rule_format, of 0] Inr p new have x: "x = u" by (simp add: insert_calls_def)
      have "\<forall>i < length ps.
                   data_insert E ((t @ [?c]) @ insert_calls (take i ps))
                     (insert_properties (fst (ps ! i))) (snd (ps ! i)) = Inr (new' ! i)"
      proof (intro allI impI)
        fix i assume "i < length ps"
        with a [rule_format, of "Suc i"] new p
        show "data_insert E ((t @ [?c]) @ insert_calls (take i ps))
                     (insert_properties (fst (ps ! i))) (snd (ps ! i)) = Inr (new' ! i)"
          by (simp add: insert_calls_Cons)
      qed
      with n new x p have "add_documents_loop E ps (acc @ [u]) (t @ [?c]) = (Inr ids, t')"
        by (subst Cons.IH) (auto simp: insert_calls_Cons)
      with step show "add_documents_loop E (p # ps) acc t = (Inr ids, t')" by simp
    qed
  qed
qed

lemma add_documents_loop_Inl:
  "add_documents_loop E ps acc t = (Inl e, t') \<Longrightarrow>
     \<exists>i < length ps.
        data_insert E (t @ insert_calls (take i ps))
          (insert_properties (fst (ps ! i))) (snd (ps ! i)) = Inl e \<and>
        t' = t @ insert_calls (take (Suc i) ps)"
proof (induction ps arbitrary: acc t)
  case Nil
  then show ?case by simp
next
  case (Cons p ps)
  obtain doc vec where p: "p = (doc, vec)" by (cases p)
  let ?c = "DataInsert (insert_properties doc) vec"
  show ?case
  proof (cases "data_insert E t (insert_properties doc) vec")
    case (Inl e')
    with Cons.prems p have "e' = e" "t' = t @ [?c]" by simp_all
    with Inl p show ?thesis
      by (intro exI[of _ 0]) (simp add: insert_calls_def)
  next
    case (Inr u)
    with Cons.prems p have "add_documents_loop E ps (acc @ [u]) (t @ [?c]) = (Inl e, t')"
      by simp
    from Cons.IH [OF this] obtain i where i: "i < length ps"
      "data_insert E ((t @ [?c]) @ insert_calls (take i ps))
          (insert_properties (fst (ps ! i))) (snd (ps ! i)) = Inl e"
      "t' = (t @ [?c]) @ insert_calls (take (Suc i) ps)"
      by blast
    then show ?thesis using p
      by (intro exI[of _ "Suc i"]) (simp add: insert_calls_Cons)
  qed
qed

text \<open>
  Claim C8. For a document list and a vector list of equal length N, \<open>add_documents\<close>
  returns a list of identifiers exactly when the store returns an identifier for each of
  the N inserts; the list then has N identifiers, and the i-th one is the identifier
  that the store returned for the i-th (document, vector) pair, the pairs being inserted
  in input order.
\<close>

theorem add_documents_one_id_per_pair:
  assumes "length documents = length vectors"
  shows "add_documents E documents vectors t = (Inr uuids, t') \<longleftrightarrow>
           length uuids = length documents \<and>
           t' = t @ insert_calls (zip documents vectors) \<and>
           (\<forall>i < length documents.
              data_insert E (t @ insert_calls (take i (zip documents vectors)))
                (insert_properties (documents ! i)) (vectors ! i) = Inr (uuids ! i))"
  using assms by (simp add: add_documents_def add_documents_loop_Inr_iff)

text \<open>Three documents and three vectors give three identifiers; reserved keys are dropped.\<close>

theorem add_documents_one_id_per_pair_witness:
  "length demo_docs = length [[1, 0], [0, 1], [1, 1 :: real]] \<and>
   add_documents demo_env demo_docs [[1, 0], [0, 1], [1, 1]] [] =
     (Inr [''uuid-0'', ''uuid-1'', ''uuid-2''],
      [DataInsert [(''content'', PStr ''alpha''), (''chunk_index'', PInt 0)] [1, 0],
       DataInsert [(''content'', PStr ''beta''), (''chunk_index'', PInt 1)] [0, 1],
       DataInsert [(''content'', PStr ''gamma''), (''chunk_index'', PInt 2)] [1, 1]]) \<and>
   length [''uuid-0'', ''uuid-1'', ''uuid-2''] = length demo_docs"
proof -
  have h: "length demo_docs = length [[1, 0], [0, 1], [1, 1 :: real]]"
    by (simp add: demo_docs_def)
  have e: "add_documents demo_env demo_docs [[1, 0], [0, 1], [1, 1]] [] =
     (Inr [''uuid-0'', ''uuid-1'', ''uuid-2''],
      [DataInsert [(''content'', PStr ''alpha''), (''chunk_index'', PInt 0)] [1, 0],
       DataInsert [(''content'', PStr ''beta''), (''chunk_index'', PInt 1)] [0, 1],
       DataInsert [(''content'', PStr ''gamma''), (''chunk_index'', PInt 2)] [1, 1]])"
    by code_simp
  from add_documents_one_id_per_pair [OF h, THEN iffD1, OF e] h e show ?thesis by blast
qed

text \<open>
  Claim C10. For lists of any lengths, \<open>add_documents\<close> inserts the pairs of
  \<open>zip(documents, vectors)\<close>: when it returns, it has made exactly
  \<open>min(len(documents), len(vectors))\<close> inserts and returns that many identifiers. The
  difference of the lengths raises nothing: an exception of \<open>add_documents\<close> is the
  exception of one of its inserts.
\<close>

theorem add_documents_truncates:
  "(add_documents E documents vectors t = (Inr uuids, t') \<longrightarrow>
      length uuids = min (length documents) (length vectors) \<and>
      t' = t @ insert_calls (zip documents vectors) \<and>
      length (insert_calls (zip documents vectors)) = min (length documents) (length vectors)) \<and>
   (add_documents E documents vectors t = (Inl e, t') \<longrightarrow>
      (\<exists>i < min (length documents) (length vectors).
         data_insert E (t @ insert_calls (take i (zip documents vectors)))
           (insert_properties (documents ! i)) (vectors ! i) = Inl e))"
proof (intro conjI impI)
  assume "add_documents E documents vectors t = (Inr uuids, t')"
  then obtain new where "uuids = [] @ new" "length new = length (zip documents vectors)"
      "t' = t @ insert_calls (zip documents vectors)"
    unfolding add_documents_def add_documents_loop_Inr_iff by blast
  then show "length uuids = min (length documents) (length vectors)"
    and "t' = t @ insert_calls (zip documents vectors)"
    by simp_all
  show "length (insert_calls (zip documents vectors)) = min (length documents) (length vectors)"
    by (simp add: insert_calls_def)
next
  assume "add_documents E documents vectors t = (Inl e, t')"
  then have "add_documents_loop E (zip documents vectors) [] t = (Inl e, t')"
    by (simp add: add_documents_def)
  from add_documents_loop_Inl [OF this] obtain i where
    "i < length (zip documents vectors)"
    "data_insert E (t @ insert_calls (take i (zip documents vectors)))
       (insert_properties (fst (zip documents vectors ! i))) (snd (zip documents vectors ! i)) = Inl e"
    by blast
  then show "\<exists>i < min (length documents) (length vectors).
         data_insert E (t @ insert_calls (take i (zip documents vectors)))
           (insert_properties (documents ! i)) (vectors ! i) = Inl e"
    by (intro exI[of _ i]) simp
qed

text \<open>
  Three documents and two vectors: two inserts and two identifiers; with the store whose
  second insert fails, the exception is the store's.
\<close>

theorem add_documents_truncates_witness:
  "add_documents demo_env demo_docs [[1, 0], [0, 1]] [] =
     (Inr [''uuid-0'', ''uuid-1''],
      [DataInsert [(''content'', PStr ''alpha''), (''chunk_index'', PInt 0)] [1, 0],
       DataInsert [(''content'', PStr ''beta''), (''chunk_index'', PInt 1)] [0, 1]]) \<and>
   length [''uuid-0'', ''uuid-1''] = min (length demo_docs) (length [[1, 0], [0, 1 :: real]]) \<and>
   add_documents broken_store_env demo_docs [[1, 0], [0, 1]] [] =
     (Inl (External ''insert failed''),
      [DataInsert [(''content'', PStr ''alpha''), (''chunk_index'', PInt 0)] [1, 0],
       DataInsert [(''content'', PStr ''beta''), (''chunk_index'', PInt 1)] [0, 1]]) \<and>
   (\<exists>i < min (length demo_docs) (length [[1, 0], [0, 1 :: real]]).
      data_insert broken_store_env ([] @ insert_calls (take i (zip demo_docs [[1, 0], [0, 1]])))
        (insert_properties (demo_docs ! i)) ([[1, 0], [0, 1]] ! i) = Inl (External ''insert failed''))"
proof -
  have e: "add_documents demo_env demo_docs [[1, 0], [0, 1]] [] =
     (Inr [''uuid-0'', ''uuid-1''],
      [DataInsert [(''content'', PStr ''alpha''), (''chunk_index'', PInt 0)] [1, 0],
       DataInsert [(''content'', PStr ''beta''), (''chunk_index'', PInt 1)] [0, 1]])"
    by code_simp
  have f: "add_documents broken_store_env demo_docs [[1, 0], [0, 1]] [] =
     (Inl (External ''insert failed''),
      [DataInsert [(''content'', PStr ''alpha''), (''chunk_index'', PInt 0)] [1, 0],
       DataInsert [(''content'', PStr ''beta''), (''chunk_index'', PInt 1)] [0, 1]])"
    by code_simp
  from add_documents_truncates [THEN conjunct1, rule_format, OF e]
       add_documents_truncates [THEN conjunct2, rule_format, OF f] e f
  show ?thesis by blast
qed

section \<open>Ingestion of raw text\<close>

text \<open>
  The text of three spaces is not rejected (C1 as stated fails on it): it passes the
  guard, is handed to the splitter, and the embedding gateway is called with the (empty)
  list of chunk texts; with the concrete services the request succeeds with 0 chunks.
\<close>

theorem ingest_text_whitespace_counterexample:
  "ingest_text demo_env \<lparr>text_content = Some ''   '', req_filename = None\<rparr> [] =
     (Inr \<lparr>success = True, resp_message = ''Successfully ingested text content'',
            document_id = None, chunks_created = 0\<rparr>,
      [SplitDocuments [\<lparr>page_content = ''   '', doc_metadata = [(''source'', ''text_input'')]\<rparr>],
       EmbeddingsCreate []])"
  by code_simp

text \<open>
  Claim C1, amended. A request whose text content is absent or the empty string is
  rejected with the precondition error 400 "Text content is required", and the trace of
  external calls is unchanged: no chunk is created and no call reaches the splitter, the
  embedding gateway or the store.
\<close>

theorem ingest_text_empty_rejected:
  assumes "text_content request = None \<or> text_content request = Some ''''"
  shows "ingest_text E request t =
           (Inl \<lparr>status_code = 400, detail = ''Text content is required''\<rparr>, t)"
  using assms by (auto simp: ingest_text_def)

text \<open>The empty text is rejected and the trace stays as it was.\<close>

theorem ingest_text_empty_rejected_witness:
  "(text_content \<lparr>text_content = Some '''', req_filename = Some ''notes''\<rparr> = None \<or>
    text_content \<lparr>text_content = Some '''', req_filename = Some ''notes''\<rparr> = Some '''') \<and>
   ingest_text demo_env \<lparr>text_content = Some '''', req_filename = Some ''notes''\<rparr>
       [EmbeddingsCreate [''earlier'']] =
     (Inl \<lparr>status_code = 400, detail = ''Text content is required''\<rparr>,
      [EmbeddingsCreate [''earlier'']])"
proof -
  have h: "text_content \<lparr>text_content = Some '''', req_filename = Some ''notes''\<rparr> = None \<or>
    text_content \<lparr>text_content = Some '''', req_filename = Some ''notes''\<rparr> = Some ''''"
    by simp
  from ingest_text_empty_rejected [OF h] h show ?thesis by blast
qed

text \<open>
  Every non-empty text, whitespace-only or not, reaches the embedding gateway as soon as
  the splitter returns: the trace never loses a call, and \<open>create_embeddings\<close> is called
  with the chunk texts whatever they are.
\<close>

lemma add_documents_loop_trace:
  "c \<in> set t \<Longrightarrow> c \<in> set (snd (add_documents_loop E ps acc t))"
proof (induction ps arbitrary: acc t)
  case Nil
  then show ?case by simp
next
  case (Cons p ps)
  obtain doc vec where p: "p = (doc, vec)" by (cases p)
  show ?case
  proof (cases "data_insert E t (insert_properties doc) vec")
    case (Inl e)
    with Cons.prems p show ?thesis by simp
  next
    case (Inr u)
    from Cons.prems have "c \<in> set (t @ [DataInsert (insert_properties doc) vec])" by simp
    from Cons.IH [OF this] Inr p show ?thesis by simp
  qed
qed

lemma embed_and_store_calls_gateway:
  "EmbeddingsCreate (map page_content chunks) \<in> set (snd (embed_and_store E fname ftype chunks t))"
proof (cases "embeddings_create E t (map page_content chunks)")
  case (Inl e)
  then show ?thesis by (simp add: embed_and_store_def create_embeddings_def)
next
  case (Inr embeddings)
  have "EmbeddingsCreate (map page_content chunks) \<in>
          set (t @ [EmbeddingsCreate (map page_content chunks)])"
    by simp
  from add_documents_loop_trace [OF this] Inr show ?thesis
    by (simp add: embed_and_store_def create_embeddings_def add_documents_def)
qed

lemma ingest_text_nonempty_reaches_gateway:
  assumes "text \<noteq> ''''"
      and "text_splitter E [\<lparr>page_content = text, doc_metadata = [(''source'', py_or fname ''text_input'')]\<rparr>] = Inr chunks"
  shows "EmbeddingsCreate (map page_content chunks) \<in>
           set (snd (ingest_text E \<lparr>text_content = Some text, req_filename = fname\<rparr> t))"
  using assms embed_and_store_calls_gateway
    [of chunks E "py_or fname ''text_input''" "''.txt''"
        "t @ [SplitDocuments [\<lparr>page_content = text, doc_metadata = [(''source'', py_or fname ''text_input'')]\<rparr>]]"]
  by (auto simp: ingest_text_def ingest_text_content_def process_text_content_def Let_def
      split: prod.splits sum.splits)

text \<open>
  A successful raw-text ingestion reports no file size (C7 as stated fails on it): the
  dict has no \<open>file_size\<close> key, so the size reported is not 0.
\<close>

theorem ingest_text_content_no_file_size_counterexample:
  "ingest_text_content demo_env ''hello world'' ''text_input'' [] =
     (\<lparr>res_success = True, res_message = ''Successfully ingested text content'',
        res_filename = ''text_input'', res_chunks_created = 1,
        res_file_size = None, res_document_ids = Some [''uuid-2'']\<rparr>,
      [SplitDocuments [\<lparr>page_content = ''hello world'', doc_metadata = [(''source'', ''text_input'')]\<rparr>],
       EmbeddingsCreate [''hello world''],
       DataInsert [(''content'', PStr ''hello world''), (''filename'', PStr ''text_input''),
                   (''chunk_index'', PInt 0), (''file_type'', PStr ''.txt''),
                   (''upload_date'', PStr ''2025-01-01T00:00:00Z'')] [1, 0]])"
  by code_simp

text \<open>
  Claim C7, amended. Every successful raw-text ingestion reports the success flag, the
  message "Successfully ingested text content", the file name label, the number of
  chunks that the splitter produced, and the identifiers that the store generated; it
  reports no file size.
\<close>

theorem ingest_text_content_success_report:
  assumes "ingest_text_content E text fname t = (result, t')"
      and "res_success result"
  shows "\<exists>chunks document_ids.
           text_splitter E [\<lparr>page_content = text, doc_metadata = [(''source'', fname)]\<rparr>] = Inr chunks \<and>
           embed_and_store E fname ''.txt'' chunks
             (t @ [SplitDocuments [\<lparr>page_content = text, doc_metadata = [(''source'', fname)]\<rparr>]]) =
             (Inr document_ids, t') \<and>
           result =
             \<lparr> res_success = True,
               res_message = ''Successfully ingested text content'',
               res_filename = fname,
               res_chunks_created = int (length chunks),
               res_file_size = None,
               res_document_ids = Some document_ids \<rparr>"
  using assms
  by (auto simp: ingest_text_content_def process_text_content_def Let_def text_failure_def
      split: prod.splits sum.splits)

text \<open>One chunk, one identifier, no file size.\<close>

theorem ingest_text_content_success_report_witness:
  "ingest_text_content demo_env ''hello world'' ''note'' [] =
     (\<lparr>res_success = True, res_message = ''Successfully ingested text content'',
        res_filename = ''note'', res_chunks_created = 1,
        res_file_size = None, res_document_ids = Some [''uuid-2'']\<rparr>,
      [SplitDocuments [\<lparr>page_content = ''hello world'', doc_metadata = [(''source'', ''note'')]\<rparr>],
       EmbeddingsCreate [''hello world''],
       DataInsert [(''content'', PStr ''hello world''), (''filename'', PStr ''note''),
                   (''chunk_index'', PInt 0), (''file_type'', PStr ''.txt''),
                   (''upload_date'', PStr ''2025-01-01T00:00:00Z'')] [1, 0]]) \<and>
   (\<exists>chunks document_ids.
      text_splitter demo_env [\<lparr>page_content = ''hello world'', doc_metadata = [(''source'', ''note'')]\<rparr>] =
        Inr chunks \<and>
      \<lparr>res_success = True, res_message = ''Successfully ingested text content'',
        res_filename = ''note'', res_chunks_created = 1,
        res_file_size = None, res_document_ids = Some [''uuid-2'']\<rparr> =
      \<lparr>res_success = True, res_message = ''Successfully ingested text content'',
        res_filename = ''note'', res_chunks_created = int (length chunks),
        res_file_size = None, res_document_ids = Some document_ids\<rparr>)"
proof -
  let ?result = "\<lparr>res_success = True, res_message = ''Successfully ingested text content'',
        res_filename = ''note'', res_chunks_created = 1,
        res_file_size = None, res_document_ids = Some [''uuid-2'']\<rparr>"
  have h: "ingest_text_content demo_env ''hello world'' ''note'' [] =
     (?result,
      [SplitDocuments [\<lparr>page_content = ''hello world'', doc_metadata = [(''source'', ''note'')]\<rparr>],
       EmbeddingsCreate [''hello world''],
       DataInsert [(''content'', PStr ''hello world''), (''filename'', PStr ''note''),
                   (''chunk_index'', PInt 0), (''file_type'', PStr ''.txt''),
                   (''upload_date'', PStr ''2025-01-01T00:00:00Z'')] [1, 0]])"
    by code_simp
  have s: "res_success ?result" by simp
  from ingest_text_content_success_report [OF h s] h show ?thesis by blast
qed

section \<open>Ingestion of files\<close>

text \<open>
  The endpoint rejects an extension outside the configured allow-list before anything
  else happens, and \<open>load_document\<close> raises for every type without a loader before it
  loads anything.
\<close>

lemma ingest_file_extension_not_allowed:
  assumes "lower (snd (splitext fname)) \<notin> set (allowed_file_types S)"
  shows "ingest_file E S (Some fname) t =
           (Inl \<lparr>status_code = 400,
                  detail = ''File type '' @ lower (snd (splitext fname)) @
                           '' not supported. Allowed types: '' @ repr_strs (allowed_file_types S)\<rparr>, t)"
  using assms by (simp add: ingest_file_def Let_def)

lemma load_document_unsupported:
  assumes "lower ftype \<notin> set [''.pdf'', ''.md'', ''.txt'', ''.text'']"
  shows "load_document E file_path ftype t = (Inl (ValueError (''Unsupported file type: '' @ ftype)), t)"
  using assms by (simp add: load_document_def)

text \<open>
  Claim C3 fails on \<open>.docx\<close>: the default allow-list holds \<open>.docx\<close>, for which
  \<open>load_document\<close> has no loader. The upload is read and written to a temporary file,
  the size of that file is read, and only then \<open>load_document\<close> raises; the request
  ends with status 500, not with a precondition error, and the temporary file is
  removed. No loader, splitter, embedding or store call is made.
\<close>

theorem ingest_file_docx_io_before_rejection:
  "ingest_file demo_env default_settings (Some ''report.docx'') [] =
     (Inl \<lparr>status_code = 500,
            detail = ''Failed to ingest document: Unsupported file type: .docx''\<rparr>,
      [UploadRead, TempFileWrite ''.docx'' ''file text'',
       GetSize ''/tmp/tmpupload.docx'', Unlink ''/tmp/tmpupload.docx''])"
  by code_simp

end
